theory Spec2Isabelle
  imports Main "HOL-Library.Word"
begin

section \<open>GPU memory manager (src/caffe/util/gpu_memory.cpp)\<close>

text \<open>
  A shallow embedding of \<^verbatim>\<open>GPUMemory::Manager\<close>. The manager's members and the file-level
  static \<^verbatim>\<open>cub_allocator\<close> form the program state; the CUDA runtime, the process
  environment and the log form the world, which every operation receives and returns.
  A failed \<^verbatim>\<open>CHECK\<close> or \<^verbatim>\<open>CUDA_CHECK\<close> stops the process; an access the C++ standard leaves
  undefined is reported the same way. Both are the left branch of a sum.
\<close>

subsection \<open>Machine types\<close>

type_synonym size_t = "64 word"
type_synonym void_p = "64 word"
type_synonym cudaStream_t = nat

text \<open>The upper end of the C type \<^verbatim>\<open>int\<close>, in which device ids are held.\<close>

definition INT_MAX :: int where
  "INT_MAX = 2147483647"

datatype cudaError_t = cudaSuccess | cudaErrorMemoryAllocation | cudaErrorInvalidDevice
  | cudaErrorUnknown

datatype error =
    CheckFailed
  | CudaCheckFailed cudaError_t
  | IndexOutOfBounds
  | NullDereference
  | UseAfterFree
  | LengthError
  | SignedOverflow

subsection \<open>Data model\<close>

text \<open>
  The header \<^verbatim>\<open>caffe/util/gpu_memory.hpp\<close> declares \<^verbatim>\<open>Mode\<close> and \<^verbatim>\<open>DevInfo\<close>. The source names
  two modes and three fields; the members \<^verbatim>\<open>free_\<close>, \<^verbatim>\<open>total_\<close> and \<^verbatim>\<open>flush_count_\<close> appear here
  without the trailing underscore. \<^verbatim>\<open>cudaMemGetInfo\<close> writes \<^verbatim>\<open>free_\<close> and \<^verbatim>\<open>total_\<close> through
  \<^verbatim>\<open>size_t*\<close>; the flush counter is an unsigned integer, taken here as 32 bits wide.
\<close>

datatype Mode = CUDA_MALLOC | CUB_ALLOCATOR

record DevInfo =
  free :: size_t
  total :: size_t
  flush_count :: "32 word"

text \<open>
  Modelled from the spec: the default constructor of \<^verbatim>\<open>DevInfo\<close>, declared in the header.
  Entries for uninitialized devices carry a total of zero, free never exceeds total, and
  the flush counter of an untouched device is zero.
\<close>

definition DevInfo0 :: DevInfo where
  "DevInfo0 = \<lparr>free = 0, total = 0, flush_count = 0\<rparr>"

text \<open>
  The caching pool is an external component. The manager reads one thing from it:
  \<^verbatim>\<open>cached_bytes[device].live\<close>, a map lookup that yields zero for an absent key.
\<close>

record pool =
  cached_live :: "int \<Rightarrow> size_t"

text \<open>
  The pointer \<^verbatim>\<open>cub_allocator\<close>: null, pointing to a pool, or still holding the address of a
  pool that was deleted.
\<close>

datatype pool_ptr = Null | Valid pool | Dangling

record manager =
  mode :: Mode
  debug :: bool
  dev_info :: "DevInfo list"
  cub_allocator :: pool_ptr

text \<open>\<^verbatim>\<open>Manager::Manager()\<close> together with the initializer of the static pointer.\<close>

definition Manager :: manager where
  "Manager = \<lparr>mode = CUDA_MALLOC, debug = False, dev_info = [], cub_allocator = Null\<rparr>"

subsection \<open>The world: CUDA runtime, environment, log\<close>

datatype log_line =
    LogInitialized string
  | LogDeviceProperties size_t
  | LogMemGetInfo int size_t size_t

text \<open>
  The answers of the runtime are fields of the world, so that a statement about every
  world is a statement about every answer the driver can give.
\<close>

record world =
  current_device :: int
  last_error :: cudaError_t
  rc_GetDevice :: cudaError_t
  rc_SetDevice :: "int \<Rightarrow> cudaError_t"
  rc_GetDeviceProperties :: "int \<Rightarrow> cudaError_t"
  totalGlobalMem :: "int \<Rightarrow> size_t"
  rc_MemGetInfo :: "int \<Rightarrow> cudaError_t"
  mem_free :: "int \<Rightarrow> size_t"
  mem_total :: "int \<Rightarrow> size_t"
  env_DEBUG_GPU_MEM :: bool
  verbosity :: int
  log :: "log_line list"

definition cudaGetDevice :: "world \<Rightarrow> cudaError_t \<times> int" where
  "cudaGetDevice w = (rc_GetDevice w, current_device w)"

definition cudaSetDevice :: "int \<Rightarrow> world \<Rightarrow> cudaError_t \<times> world" where
  "cudaSetDevice d w =
     (if rc_SetDevice w d = cudaSuccess then (cudaSuccess, w\<lparr>current_device := d\<rparr>)
      else (rc_SetDevice w d, w))"

definition cudaGetDeviceProperties :: "int \<Rightarrow> world \<Rightarrow> cudaError_t \<times> size_t" where
  "cudaGetDeviceProperties d w = (rc_GetDeviceProperties w d, totalGlobalMem w d)"

text \<open>The free and total memory of the active device.\<close>

definition cudaMemGetInfo :: "world \<Rightarrow> cudaError_t \<times> size_t \<times> size_t" where
  "cudaMemGetInfo w =
     (rc_MemGetInfo w (current_device w), mem_free w (current_device w),
      mem_total w (current_device w))"

text \<open>Returns the pending error and resets it.\<close>

definition cudaGetLastError :: "world \<Rightarrow> cudaError_t \<times> world" where
  "cudaGetLastError w = (last_error w, w\<lparr>last_error := cudaSuccess\<rparr>)"

text \<open>\<^verbatim>\<open>VLOG_IF(1, c) << line\<close>: the line is written when verbose level 1 is on and c holds.\<close>

definition VLOG_IF :: "bool \<Rightarrow> log_line \<Rightarrow> world \<Rightarrow> world" where
  "VLOG_IF c l w = (if 1 \<le> verbosity w \<and> c then w\<lparr>log := log w @ [l]\<rparr> else w)"

text \<open>
  The allocation and release calls of the pool and of the driver are opaque. Each takes
  the world (the pool's calls also the pool) and the content of the output slot, and
  returns its status and what it left behind.
\<close>

record extern =
  DeviceAllocate :: "pool \<Rightarrow> world \<Rightarrow> void_p \<Rightarrow> size_t \<Rightarrow> cudaStream_t
                       \<Rightarrow> cudaError_t \<times> void_p \<times> pool \<times> world"
  DeviceFree :: "pool \<Rightarrow> world \<Rightarrow> void_p \<Rightarrow> cudaError_t \<times> pool \<times> world"
  cudaMalloc :: "world \<Rightarrow> void_p \<Rightarrow> size_t \<Rightarrow> cudaError_t \<times> void_p \<times> world"
  cudaFree :: "world \<Rightarrow> void_p \<Rightarrow> cudaError_t \<times> world"

subsection \<open>update_dev_info\<close>

text \<open>\<^verbatim>\<open>vector::resize\<close> to a larger size appends default-constructed entries.\<close>

definition resize :: "DevInfo list \<Rightarrow> nat \<Rightarrow> DevInfo list" where
  "resize xs n = take n xs @ replicate (n - length xs) DevInfo0"

text \<open>
  The comparison \<^verbatim>\<open>device + 1 > dev_info_.size()\<close> converts the left side to \<^verbatim>\<open>size_t\<close>: a
  negative \<^verbatim>\<open>device + 1\<close> becomes a size no vector can take, and \<^verbatim>\<open>device = -1\<close> skips the
  resize and then indexes before the first entry.
\<close>

definition update_dev_info :: "manager \<Rightarrow> world \<Rightarrow> int \<Rightarrow> error + manager \<times> world" where
  "update_dev_info s w device =
     (case cudaGetDevice w of (rc0, initial_device) \<Rightarrow>
      if rc0 \<noteq> cudaSuccess then Inl (CudaCheckFailed rc0)
      else if INT_MAX < device + 1 then Inl SignedOverflow
      else if device + 1 < 0 then Inl LengthError
      else
        let tbl = (if length (dev_info s) < nat (device + 1)
                   then resize (dev_info s) (nat (device + 1)) else dev_info s)
        in case cudaSetDevice device w of (rc1, w1) \<Rightarrow>
           if rc1 \<noteq> cudaSuccess then Inl (CudaCheckFailed rc1)
           else case cudaGetDeviceProperties device w1 of (rc2, props) \<Rightarrow>
             if rc2 \<noteq> cudaSuccess then Inl (CudaCheckFailed rc2)
             else if device < 0 then Inl IndexOutOfBounds
             else case cudaMemGetInfo w1 of (rc3, drv_free, drv_total) \<Rightarrow>
               if rc3 \<noteq> cudaSuccess then Inl (CudaCheckFailed rc3)
               else
                 let w2 = VLOG_IF (debug s) (LogDeviceProperties props) w1;
                     w3 = VLOG_IF (debug s) (LogMemGetInfo device drv_free drv_total) w2;
                     new_total = min props drv_total
                 in (case cub_allocator s of
                       Null \<Rightarrow> Inl NullDereference
                     | Dangling \<Rightarrow> Inl UseAfterFree
                     | Valid p \<Rightarrow>
                         let new_free = min new_total (drv_free + cached_live p device);
                             tbl' = tbl[nat device := (tbl ! nat device)
                                          \<lparr>free := new_free, total := new_total\<rparr>]
                         in (case cudaSetDevice initial_device w3 of (rc4, w4) \<Rightarrow>
                              if rc4 \<noteq> cudaSuccess then Inl (CudaCheckFailed rc4)
                              else Inr (s\<lparr>dev_info := tbl'\<rparr>, w4))))"

subsection \<open>pool_name, destroy, GetInfo\<close>

definition pool_name :: "manager \<Rightarrow> string" where
  "pool_name s =
     (case mode s of
        CUB_ALLOCATOR \<Rightarrow> ''Caching (CUB) GPU Allocator''
      | CUDA_MALLOC \<Rightarrow> ''Plain CUDA GPU Allocator'')"

text \<open>
  \<^verbatim>\<open>delete\<close> of a null pointer does nothing; \<^verbatim>\<open>delete\<close> of a pointer whose pool is already
  deleted is undefined.
\<close>

definition destroy :: "manager \<Rightarrow> error + manager" where
  "destroy s =
     (case mode s of
        CUB_ALLOCATOR \<Rightarrow>
          (case cub_allocator s of
             Dangling \<Rightarrow> Inl UseAfterFree
           | Null \<Rightarrow> Inr (s\<lparr>cub_allocator := Null, mode := CUDA_MALLOC\<rparr>)
           | Valid p \<Rightarrow> Inr (s\<lparr>cub_allocator := Null, mode := CUDA_MALLOC\<rparr>))
      | CUDA_MALLOC \<Rightarrow> Inr (s\<lparr>mode := CUDA_MALLOC\<rparr>))"

text \<open>The result is the pair (\<^verbatim>\<open>*free_mem\<close>, \<^verbatim>\<open>*total_mem\<close>).\<close>

definition GetInfo :: "manager \<Rightarrow> world \<Rightarrow> error + size_t \<times> size_t" where
  "GetInfo s w =
     (case mode s of
        CUB_ALLOCATOR \<Rightarrow>
          (case cudaGetDevice w of (rc, cur_device) \<Rightarrow>
             if rc \<noteq> cudaSuccess then Inl (CudaCheckFailed rc)
             else if cur_device < 0 \<or> length (dev_info s) \<le> nat cur_device
             then Inl IndexOutOfBounds
             else
               let total_mem = total (dev_info s ! nat cur_device)
               in (case cub_allocator s of
                     Null \<Rightarrow> Inl NullDereference
                   | Dangling \<Rightarrow> Inl UseAfterFree
                   | Valid p \<Rightarrow>
                       Inr (free (dev_info s ! nat cur_device) - cached_live p cur_device,
                            total_mem)))
      | CUDA_MALLOC \<Rightarrow>
          (case cudaMemGetInfo w of (rc, free_mem, total_mem) \<Rightarrow>
             if rc \<noteq> cudaSuccess then Inl (CudaCheckFailed rc)
             else Inr (free_mem, total_mem)))"

subsection \<open>try_allocate and deallocate\<close>

text \<open>
  The loop of \<^verbatim>\<open>try_allocate\<close> over the table, from index i on. The table's size is read
  again at every round, as the source does.
\<close>

function refresh_loop :: "nat \<Rightarrow> int \<Rightarrow> manager \<Rightarrow> world \<Rightarrow> error + manager \<times> world" where
  "refresh_loop i cur_device s w =
     (if i < length (dev_info s) then
        if total (dev_info s ! i) \<noteq> 0 then
          (case update_dev_info s w (int i) of
             Inl e \<Rightarrow> Inl e
           | Inr (s1, w1) \<Rightarrow>
               if int i = cur_device then
                 refresh_loop (Suc i) cur_device
                   (s1\<lparr>dev_info := (dev_info s1)
                       [i := (dev_info s1 ! i)
                          \<lparr>flush_count := flush_count (dev_info s1 ! i) + 1\<rparr>]\<rparr>) w1
               else refresh_loop (Suc i) cur_device s1 w1)
        else refresh_loop (Suc i) cur_device s w
      else Inr (s, w))"
  by pat_completeness auto
termination
proof (relation "measure (\<lambda>(i, c, s, w). length (dev_info s) - i)")
  show "wf (measure (\<lambda>(i, c, s, w). length (dev_info s) - i))"
    by simp
next
  fix i :: nat and cur_device :: int and s w x2 s1 w1
  assume i: "i < length (dev_info s)"
    and u: "update_dev_info s w (int i) = Inr x2" "(s1, w1) = x2"
  from i have nr: "\<not> length (dev_info s) < nat (int i + 1)"
    by simp
  from u have "length (dev_info s1) = length (dev_info s)"
    unfolding update_dev_info_def Let_def
    by (simp add: nr split: prod.splits if_splits pool_ptr.splits) auto
  with i show "((Suc i, cur_device,
       s1\<lparr>dev_info := (dev_info s1)
           [i := (dev_info s1 ! i)\<lparr>flush_count := flush_count (dev_info s1 ! i) + 1\<rparr>]\<rparr>, w1),
      i, cur_device, s, w) \<in> measure (\<lambda>(i, c, s, w). length (dev_info s) - i)"
    by simp
  from \<open>length (dev_info s1) = length (dev_info s)\<close> i
  show "((Suc i, cur_device, s1, w1), i, cur_device, s, w)
      \<in> measure (\<lambda>(i, c, s, w). length (dev_info s) - i)"
    by simp
next
  fix i :: nat and cur_device :: int and s :: manager and w :: world
  assume "i < length (dev_info s)"
  then show "((Suc i, cur_device, s, w), i, cur_device, s, w)
      \<in> measure (\<lambda>(i, c, s, w). length (dev_info s) - i)"
    by simp
qed

declare refresh_loop.simps [simp del]

text \<open>
  The output slot \<^verbatim>\<open>ptr\<close> is \<open>None\<close> when the caller passes a null slot, and holds its
  current content otherwise. The result is the returned flag, the slot's new content,
  the manager and the world.
\<close>

definition try_allocate ::
  "extern \<Rightarrow> void_p option \<Rightarrow> size_t \<Rightarrow> cudaStream_t \<Rightarrow> manager \<Rightarrow> world
     \<Rightarrow> error + bool \<times> void_p \<times> manager \<times> world" where
  "try_allocate X ptr nbytes s_stream s w =
     (case ptr of
        None \<Rightarrow> Inl CheckFailed
      | Some p0 \<Rightarrow>
          (case mode s of
             CUB_ALLOCATOR \<Rightarrow>
               (case cub_allocator s of
                  Null \<Rightarrow> Inl NullDereference
                | Dangling \<Rightarrow> Inl UseAfterFree
                | Valid pl \<Rightarrow>
                    (case DeviceAllocate X pl w p0 nbytes s_stream of
                       (status, p1, pl1, w1) \<Rightarrow>
                         let s1 = s\<lparr>cub_allocator := Valid pl1\<rparr>
                         in (case cudaGetLastError w1 of (last_err, w2) \<Rightarrow>
                               if status \<noteq> cudaSuccess \<or> last_err \<noteq> cudaSuccess then
                                 (case cudaGetDevice w2 of (rc, cur_device) \<Rightarrow>
                                    if rc \<noteq> cudaSuccess then Inl (CudaCheckFailed rc)
                                    else
                                      (case refresh_loop 0 cur_device s1 w2 of
                                         Inl e \<Rightarrow> Inl e
                                       | Inr (s2, w3) \<Rightarrow>
                                           Inr (status = cudaSuccess, p1, s2, w3)))
                               else Inr (status = cudaSuccess, p1, s1, w2))))
           | CUDA_MALLOC \<Rightarrow>
               (case cudaMalloc X w p0 nbytes of
                  (status, p1, w1) \<Rightarrow> Inr (status = cudaSuccess, p1, s, w1))))"

definition deallocate ::
  "extern \<Rightarrow> void_p \<Rightarrow> cudaStream_t \<Rightarrow> manager \<Rightarrow> world \<Rightarrow> error + manager \<times> world" where
  "deallocate X ptr s_stream s w =
     (if ptr = 0 then Inr (s, w)
      else
        (case mode s of
           CUB_ALLOCATOR \<Rightarrow>
             (case cub_allocator s of
                Null \<Rightarrow> Inl NullDereference
              | Dangling \<Rightarrow> Inl UseAfterFree
              | Valid pl \<Rightarrow>
                  (case DeviceFree X pl w ptr of (rc, pl1, w1) \<Rightarrow>
                     if rc \<noteq> cudaSuccess then Inl (CudaCheckFailed rc)
                     else Inr (s\<lparr>cub_allocator := Valid pl1\<rparr>, w1)))
         | CUDA_MALLOC \<Rightarrow>
             (case cudaFree X w ptr of (rc, w1) \<Rightarrow>
                if rc \<noteq> cudaSuccess then Inl (CudaCheckFailed rc)
                else Inr (s, w1))))"

subsection \<open>init\<close>

text \<open>The loop of \<^verbatim>\<open>init\<close> over the requested devices.\<close>

fun init_loop :: "int list \<Rightarrow> manager \<Rightarrow> world \<Rightarrow> error + manager \<times> world" where
  "init_loop [] s w = Inr (s, w)"
| "init_loop (g # gs) s w =
     (case update_dev_info s w g of
        Inl e \<Rightarrow> Inl e
      | Inr (s1, w1) \<Rightarrow> init_loop gs s1 w1)"

text \<open>
  \<open>ctor\<close> is the outcome of \<^verbatim>\<open>new cub::CachingDeviceAllocator(...)\<close>: the new pool, or \<open>None\<close>
  when construction throws. The exception is caught and the assignment does not happen,
  so the pointer keeps the address of the pool deleted just before.
\<close>

definition init ::
  "int list \<Rightarrow> Mode \<Rightarrow> bool \<Rightarrow> pool option \<Rightarrow> manager \<Rightarrow> world \<Rightarrow> error + manager \<times> world" where
  "init gpus m debug_arg ctor s w =
     (let debug_env = env_DEBUG_GPU_MEM w;
          s1 = s\<lparr>debug := debug_arg \<or> debug_env\<rparr>;
          m1 = (if length gpus \<le> 0 then CUDA_MALLOC else m)
      in case (case m1 of
                 CUB_ALLOCATOR \<Rightarrow>
                   (case cub_allocator s1 of
                      Dangling \<Rightarrow> Inl UseAfterFree
                    | Null \<Rightarrow>
                        (case ctor of
                           None \<Rightarrow> Inl CheckFailed
                         | Some pl \<Rightarrow> init_loop gpus (s1\<lparr>cub_allocator := Valid pl\<rparr>) w)
                    | Valid old \<Rightarrow>
                        (case ctor of
                           None \<Rightarrow> init_loop gpus (s1\<lparr>cub_allocator := Dangling\<rparr>) w
                         | Some pl \<Rightarrow> init_loop gpus (s1\<lparr>cub_allocator := Valid pl\<rparr>) w))
               | CUDA_MALLOC \<Rightarrow> Inr (s1, w)) of
           Inl e \<Rightarrow> Inl e
         | Inr (s2, w2) \<Rightarrow>
             let s3 = s2\<lparr>mode := m1\<rparr>
             in Inr (s3, VLOG_IF debug_arg (LogInitialized (pool_name s3)) w2))"

subsection \<open>States the manager can be in\<close>

text \<open>
  The states reached from the constructed manager by any sequence of calls, each in an
  arbitrary world and with arbitrary behaviour of the pool and the driver.
\<close>

inductive reachable :: "manager \<Rightarrow> bool" where
  reach_Manager: "reachable Manager"
| reach_init: "reachable s \<Longrightarrow> init gpus m d ctor s w = Inr (s', w') \<Longrightarrow> reachable s'"
| reach_destroy: "reachable s \<Longrightarrow> destroy s = Inr s' \<Longrightarrow> reachable s'"
| reach_try_allocate:
    "reachable s \<Longrightarrow> try_allocate X ptr n st s w = Inr (ok, p, s', w') \<Longrightarrow> reachable s'"
| reach_deallocate: "reachable s \<Longrightarrow> deallocate X ptr st s w = Inr (s', w') \<Longrightarrow> reachable s'"
| reach_update_dev_info:
    "reachable s \<Longrightarrow> update_dev_info s w device = Inr (s', w') \<Longrightarrow> reachable s'"

subsection \<open>Derived notions\<close>

text \<open>
  What lines 125 to 129 of \<^verbatim>\<open>update_dev_info\<close> store in a device's entry, from the answers of
  the driver for that device and the pool's counter: the flush counter is kept.
\<close>

definition refresh_entry :: "pool \<Rightarrow> world \<Rightarrow> int \<Rightarrow> DevInfo \<Rightarrow> DevInfo" where
  "refresh_entry p w device e =
     (let new_total = min (totalGlobalMem w device) (mem_total w device)
      in e\<lparr>free := min new_total (mem_free w device + cached_live p device),
            total := new_total\<rparr>)"

text \<open>
  What one round of the loop of \<^verbatim>\<open>try_allocate\<close> makes of entry i: an entry with a total
  of zero is skipped, any other is refreshed, and its flush counter goes up by one when
  i is the active device.
\<close>

definition refreshed :: "pool \<Rightarrow> world \<Rightarrow> int \<Rightarrow> nat \<Rightarrow> DevInfo \<Rightarrow> DevInfo" where
  "refreshed p w cur_device i e =
     (if total e \<noteq> 0 then
        (if int i = cur_device
         then (refresh_entry p w (int i) e)\<lparr>flush_count := flush_count e + 1\<rparr>
         else refresh_entry p w (int i) e)
      else e)"

definition table_ok :: "DevInfo list \<Rightarrow> bool" where
  "table_ok tbl = (\<forall>e \<in> set tbl. free e \<le> total e)"

subsection \<open>Sample inputs\<close>

text \<open>
  A freshly constructed pool, and a world with one kind of device: 1000 bytes of
  hardware memory, of which the driver reports 400 free and a total of 1024.
\<close>

definition pool0 :: pool where
  "pool0 = \<lparr>cached_live = (\<lambda>d. 0)\<rparr>"

definition world0 :: world where
  "world0 = \<lparr>current_device = 0, last_error = cudaSuccess, rc_GetDevice = cudaSuccess,
     rc_SetDevice = (\<lambda>d. cudaSuccess), rc_GetDeviceProperties = (\<lambda>d. cudaSuccess),
     totalGlobalMem = (\<lambda>d. 1000), rc_MemGetInfo = (\<lambda>d. cudaSuccess),
     mem_free = (\<lambda>d. 400), mem_total = (\<lambda>d. 1024),
     env_DEBUG_GPU_MEM = False, verbosity = 0, log = []\<rparr>"

text \<open>Later the driver reports 300 bytes free; in \<open>world1\<close> device 3 is the active one.\<close>

definition world1 :: world where
  "world1 = world0\<lparr>current_device := 3, mem_free := (\<lambda>d. 300)\<rparr>"

definition world2 :: world where
  "world2 = world0\<lparr>mem_free := (\<lambda>d. 300)\<rparr>"

text \<open>The first world with \<^verbatim>\<open>DEBUG_GPU_MEM\<close> set and verbose logging on.\<close>

definition world_env :: world where
  "world_env = world0\<lparr>env_DEBUG_GPU_MEM := True, verbosity := 1\<rparr>"

text \<open>
  A pool and driver that serve every request, the pool counting the bytes as live on the
  active device; and a pool and driver that are out of memory.
\<close>

definition pool_grow :: "pool \<Rightarrow> int \<Rightarrow> size_t \<Rightarrow> pool" where
  "pool_grow pl d n = pl\<lparr>cached_live := (cached_live pl)(d := cached_live pl d + n)\<rparr>"

definition extern_ok :: extern where
  "extern_ok = \<lparr>
     DeviceAllocate = (\<lambda>pl w p n st. (cudaSuccess, 4096, pool_grow pl (current_device w) n, w)),
     DeviceFree = (\<lambda>pl w p. (cudaSuccess, pl, w)),
     cudaMalloc = (\<lambda>w p n. (cudaSuccess, 4096, w)),
     cudaFree = (\<lambda>w p. (cudaSuccess, w))\<rparr>"

definition extern_fail :: extern where
  "extern_fail = \<lparr>
     DeviceAllocate = (\<lambda>pl w p n st.
        (cudaErrorMemoryAllocation, p, pl, w\<lparr>last_error := cudaErrorMemoryAllocation\<rparr>)),
     DeviceFree = (\<lambda>pl w p. (cudaSuccess, pl, w)),
     cudaMalloc = (\<lambda>w p n.
        (cudaErrorMemoryAllocation, p, w\<lparr>last_error := cudaErrorMemoryAllocation\<rparr>)),
     cudaFree = (\<lambda>w p. (cudaSuccess, w))\<rparr>"

text \<open>The manager after \<^verbatim>\<open>init({0}, CUB_ALLOCATOR, false)\<close> in the first world.\<close>

definition state1 :: manager where
  "state1 = \<lparr>mode = CUB_ALLOCATOR, debug = False,
     dev_info = [\<lparr>free = 400, total = 1000, flush_count = 0\<rparr>],
     cub_allocator = Valid pool0\<rparr>"

text \<open>The same with the debug flag resolved to true.\<close>

definition state1_debug :: manager where
  "state1_debug = state1\<lparr>debug := True\<rparr>"

text \<open>After a refresh of device 0 in the later world.\<close>

definition state2 :: manager where
  "state2 = state1\<lparr>dev_info := [\<lparr>free = 300, total = 1000, flush_count = 0\<rparr>]\<rparr>"

text \<open>After a served request for 600 bytes on device 0.\<close>

definition state3 :: manager where
  "state3 = state1\<lparr>cub_allocator := Valid (pool_grow pool0 0 600)\<rparr>"

text \<open>After \<^verbatim>\<open>destroy()\<close>.\<close>

definition state4 :: manager where
  "state4 = state1\<lparr>cub_allocator := Null, mode := CUDA_MALLOC\<rparr>"

text \<open>After a failed request in the later world, device 0 being active.\<close>

definition state5 :: manager where
  "state5 = state1\<lparr>dev_info := [\<lparr>free = 300, total = 1000, flush_count = 1\<rparr>]\<rparr>"

text \<open>
  The manager after \<^verbatim>\<open>init({1}, CUB_ALLOCATOR, false)\<close> in the first world, and the same
  after a refresh of device 1 in the later world.
\<close>

definition state_dev1 :: manager where
  "state_dev1 = \<lparr>mode = CUB_ALLOCATOR, debug = False,
     dev_info = [\<lparr>free = 0, total = 0, flush_count = 0\<rparr>,
                 \<lparr>free = 400, total = 1000, flush_count = 0\<rparr>],
     cub_allocator = Valid pool0\<rparr>"

definition state_dev1_refreshed :: manager where
  "state_dev1_refreshed = state_dev1\<lparr>dev_info :=
     [\<lparr>free = 0, total = 0, flush_count = 0\<rparr>,
      \<lparr>free = 300, total = 1000, flush_count = 0\<rparr>]\<rparr>"

section \<open>Properties\<close>

subsection \<open>What a successful update_dev_info does\<close>

lemma update_dev_info_InrD:
  assumes "update_dev_info s w device = Inr (s', w')"
  shows "0 \<le> device \<and>
    (\<exists>p. cub_allocator s = Valid p \<and>
      dev_info s' =
        (let tbl = (if length (dev_info s) < nat (device + 1)
                    then resize (dev_info s) (nat (device + 1)) else dev_info s)
         in tbl[nat device := refresh_entry p w device (tbl ! nat device)])) \<and>
    mode s' = mode s \<and> debug s' = debug s \<and> cub_allocator s' = cub_allocator s \<and>
    w' = w\<lparr>log := log w'\<rparr>"
  using assms
  unfolding update_dev_info_def cudaGetDevice_def cudaSetDevice_def cudaGetDeviceProperties_def
    cudaMemGetInfo_def VLOG_IF_def Let_def refresh_entry_def
  by (auto split: if_splits pool_ptr.splits prod.splits)

lemma update_dev_info_in_table:
  assumes u: "update_dev_info s w (int i) = Inr (s1, w1)" and i: "i < length (dev_info s)"
    and p: "cub_allocator s = Valid p"
  shows "dev_info s1 = (dev_info s)[i := refresh_entry p w (int i) (dev_info s ! i)] \<and>
    cub_allocator s1 = Valid p \<and> mode s1 = mode s \<and> debug s1 = debug s \<and>
    (\<exists>l. w1 = w\<lparr>log := l\<rparr>)"
proof -
  from update_dev_info_InrD [OF u] have "w1 = w\<lparr>log := log w1\<rparr>"
    by blast
  then have "\<exists>l. w1 = w\<lparr>log := l\<rparr>"
    by (rule exI)
  with update_dev_info_InrD [OF u] i p show ?thesis
    by (auto simp: Let_def)
qed

lemma refresh_entry_ok: "free (refresh_entry p w d e) \<le> total (refresh_entry p w d e)"
  unfolding refresh_entry_def Let_def by (simp del: min.bounded_iff)

lemma flush_count_refresh_entry: "flush_count (refresh_entry p w d e) = flush_count e"
  by (simp add: refresh_entry_def Let_def)

lemma refreshed_log: "refreshed p (w\<lparr>log := l\<rparr>) c i e = refreshed p w c i e"
  by (simp add: refreshed_def refresh_entry_def)

subsection \<open>Free never exceeds total\<close>

lemma table_ok_resize: "table_ok xs \<Longrightarrow> table_ok (resize xs n)"
  by (auto simp: table_ok_def resize_def DevInfo0_def dest: in_set_takeD)

lemma table_ok_update: "table_ok xs \<Longrightarrow> free e \<le> total e \<Longrightarrow> table_ok (xs[i := e])"
  unfolding table_ok_def by (metis insert_iff set_update_subset_insert subsetD)

lemma table_ok_bump:
  "table_ok xs \<Longrightarrow> table_ok (xs[i := (xs ! i)\<lparr>flush_count := c\<rparr>])"
proof (cases "i < length xs")
  case True
  assume "table_ok xs"
  with True have "free (xs ! i) \<le> total (xs ! i)"
    by (simp add: table_ok_def)
  with \<open>table_ok xs\<close> show ?thesis
    by (intro table_ok_update) simp_all
next
  case False
  assume "table_ok xs"
  with False show ?thesis by (simp add: not_less list_update_beyond)
qed

lemma update_dev_info_table_ok:
  assumes "update_dev_info s w device = Inr (s', w')" and "table_ok (dev_info s)"
  shows "table_ok (dev_info s')"
proof -
  from update_dev_info_InrD [OF assms(1)] obtain p where
    "dev_info s' =
        (let tbl = (if length (dev_info s) < nat (device + 1)
                    then resize (dev_info s) (nat (device + 1)) else dev_info s)
         in tbl[nat device := refresh_entry p w device (tbl ! nat device)])"
    by blast
  with assms(2) show ?thesis
    by (simp add: Let_def table_ok_update table_ok_resize refresh_entry_ok)
qed

lemma refresh_loop_table_ok:
  "refresh_loop i c s w = Inr (s', w') \<Longrightarrow> table_ok (dev_info s) \<Longrightarrow> table_ok (dev_info s')"
proof (induction i c s w rule: refresh_loop.induct)
  case (1 i c s w)
  note step = refresh_loop.simps [of i c s w]
  show ?case
  proof (cases "i < length (dev_info s)")
    case False
    with "1.prems" show ?thesis by (simp add: step)
  next
    case True
    show ?thesis
    proof (cases "total (dev_info s ! i) = 0")
      case True
      with \<open>i < length (dev_info s)\<close> "1.prems" "1.IH"(3) show ?thesis by (simp add: step)
    next
      case False
      with True "1.prems"(1) obtain s1 w1 where
        u: "update_dev_info s w (int i) = Inr (s1, w1)"
        by (auto simp: step split: sum.splits)
      have ok1: "table_ok (dev_info s1)"
        using update_dev_info_table_ok [OF u "1.prems"(2)] .
      show ?thesis
      proof (cases "int i = c")
        case True
        with \<open>i < length (dev_info s)\<close> False u "1.prems"(1) "1.IH"(1) [OF _ _ u refl]
          table_ok_bump [OF ok1]
        show ?thesis by (simp add: step)
      next
        case False
        with \<open>i < length (dev_info s)\<close> \<open>total (dev_info s ! i) \<noteq> 0\<close> u "1.prems"(1)
          "1.IH"(2) [OF _ _ u refl] ok1
        show ?thesis by (simp add: step)
      qed
    qed
  qed
qed

lemma init_loop_table_ok:
  "init_loop gpus s w = Inr (s', w') \<Longrightarrow> table_ok (dev_info s) \<Longrightarrow> table_ok (dev_info s')"
proof (induction gpus arbitrary: s w)
  case Nil
  then show ?case by simp
next
  case (Cons g gs)
  from Cons.prems(1) obtain s1 w1 where
    u: "update_dev_info s w g = Inr (s1, w1)" and r: "init_loop gs s1 w1 = Inr (s', w')"
    by (auto split: sum.splits)
  from update_dev_info_table_ok [OF u Cons.prems(2)] Cons.IH [OF r] show ?case
    by blast
qed

lemma try_allocate_CUB_InrD:
  assumes t: "try_allocate X ptr n st s w = Inr (ok, p, s', w')"
    and m: "mode s = CUB_ALLOCATOR"
  shows "\<exists>p0 pl status p1 pl1 w1.
      ptr = Some p0 \<and> cub_allocator s = Valid pl \<and>
      DeviceAllocate X pl w p0 n st = (status, p1, pl1, w1) \<and>
      ok = (status = cudaSuccess) \<and> p = p1 \<and>
      (if status \<noteq> cudaSuccess \<or> last_error w1 \<noteq> cudaSuccess
       then rc_GetDevice w1 = cudaSuccess \<and>
            refresh_loop 0 (current_device w1) (s\<lparr>cub_allocator := Valid pl1\<rparr>)
              (w1\<lparr>last_error := cudaSuccess\<rparr>) = Inr (s', w')
       else s' = s\<lparr>cub_allocator := Valid pl1\<rparr> \<and> w' = w1\<lparr>last_error := cudaSuccess\<rparr>)"
proof -
  from t obtain p0 where p0: "ptr = Some p0"
    by (cases ptr) (simp_all add: try_allocate_def)
  from t m p0 obtain pl where pl: "cub_allocator s = Valid pl"
    by (cases "cub_allocator s") (simp_all add: try_allocate_def)
  obtain status p1 pl1 w1 where d: "DeviceAllocate X pl w p0 n st = (status, p1, pl1, w1)"
    by (cases "DeviceAllocate X pl w p0 n st") blast
  from t m p0 pl d show ?thesis
    by (auto simp: try_allocate_def Let_def cudaGetLastError_def cudaGetDevice_def
        split: if_splits sum.splits prod.splits)
qed

lemma try_allocate_table_ok:
  assumes t: "try_allocate X ptr n st s w = Inr (ok, p, s', w')" and ok: "table_ok (dev_info s)"
  shows "table_ok (dev_info s')"
proof (cases "mode s")
  case CUDA_MALLOC
  with t have "s' = s"
    by (cases ptr) (auto simp: try_allocate_def split: prod.splits)
  with ok show ?thesis by simp
next
  case CUB_ALLOCATOR
  from try_allocate_CUB_InrD [OF t CUB_ALLOCATOR] ok show ?thesis
    by (auto split: if_splits dest: refresh_loop_table_ok)
qed

lemma deallocate_table_ok:
  "deallocate X ptr st s w = Inr (s', w') \<Longrightarrow> table_ok (dev_info s)
    \<Longrightarrow> table_ok (dev_info s')"
  unfolding deallocate_def
  by (auto split: Mode.splits pool_ptr.splits prod.splits if_splits)

lemma destroy_table_ok:
  "destroy s = Inr s' \<Longrightarrow> table_ok (dev_info s) \<Longrightarrow> table_ok (dev_info s')"
  unfolding destroy_def
  by (auto split: Mode.splits pool_ptr.splits)

lemma init_table_ok:
  "init gpus m d ctor s w = Inr (s', w') \<Longrightarrow> table_ok (dev_info s)
    \<Longrightarrow> table_ok (dev_info s')"
  unfolding init_def Let_def
  by (auto split: Mode.splits pool_ptr.splits option.splits sum.splits if_splits
      dest: init_loop_table_ok)

lemma reachable_table_ok: "reachable s \<Longrightarrow> table_ok (dev_info s)"
proof (induction rule: reachable.induct)
  case reach_Manager
  show ?case by (simp add: Manager_def table_ok_def)
qed (blast intro: init_table_ok destroy_table_ok try_allocate_table_ok deallocate_table_ok
      update_dev_info_table_ok)+

subsection \<open>What the loop of try_allocate does\<close>

lemma refresh_loop_InrD:
  "refresh_loop i c s w = Inr (s', w') \<Longrightarrow> cub_allocator s = Valid p \<Longrightarrow>
   length (dev_info s') = length (dev_info s) \<and>
   (\<forall>j < length (dev_info s). dev_info s' ! j =
      (if i \<le> j then refreshed p w c j (dev_info s ! j) else dev_info s ! j)) \<and>
   mode s' = mode s \<and> debug s' = debug s \<and> cub_allocator s' = Valid p \<and>
   (\<exists>l. w' = w\<lparr>log := l\<rparr>)"
proof (induction i c s w rule: refresh_loop.induct)
  case (1 i c s w)
  note step = refresh_loop.simps [of i c s w]
  show ?case
  proof (cases "i < length (dev_info s)")
    case False
    have "w = w\<lparr>log := log w\<rparr>" by simp
    then have "\<exists>l. w = w\<lparr>log := l\<rparr>" by (rule exI)
    with False "1.prems" show ?thesis
      by (simp add: step)
  next
    case inside: True
    show ?thesis
    proof (cases "total (dev_info s ! i) = 0")
      case True
      with inside "1.prems" have r: "refresh_loop (Suc i) c s w = Inr (s', w')"
        by (simp add: step)
      have e: "refreshed p w c i (dev_info s ! i) = dev_info s ! i"
        using True by (simp add: refreshed_def)
      from "1.IH"(3) [OF inside _ r "1.prems"(2)] True
      have IH: "length (dev_info s') = length (dev_info s) \<and>
          (\<forall>j < length (dev_info s). dev_info s' ! j =
            (if Suc i \<le> j then refreshed p w c j (dev_info s ! j) else dev_info s ! j)) \<and>
          mode s' = mode s \<and> debug s' = debug s \<and> cub_allocator s' = Valid p \<and>
          (\<exists>l. w' = w\<lparr>log := l\<rparr>)"
        by simp
      have "\<forall>j < length (dev_info s). dev_info s' ! j =
            (if i \<le> j then refreshed p w c j (dev_info s ! j) else dev_info s ! j)"
      proof (intro allI impI)
        fix j assume j: "j < length (dev_info s)"
        show "dev_info s' ! j =
            (if i \<le> j then refreshed p w c j (dev_info s ! j) else dev_info s ! j)"
        proof (cases "j = i")
          case True
          with IH j e show ?thesis by simp
        next
          case False
          with IH j show ?thesis by (auto simp: Suc_le_eq)
        qed
      qed
      with IH show ?thesis by blast
    next
      case nonzero: False
      with inside "1.prems"(1) obtain s1 w1 where
        u: "update_dev_info s w (int i) = Inr (s1, w1)"
        by (auto simp: step split: sum.splits)
      note U = update_dev_info_in_table [OF u inside "1.prems"(2)]
      from U obtain l1 where w1: "w1 = w\<lparr>log := l1\<rparr>"
        by blast
      define s2 where "s2 = (if int i = c
        then s1\<lparr>dev_info := (dev_info s1)
               [i := (dev_info s1 ! i)\<lparr>flush_count := flush_count (dev_info s1 ! i) + 1\<rparr>]\<rparr>
        else s1)"
      from inside nonzero u "1.prems"(1) have r: "refresh_loop (Suc i) c s2 w1 = Inr (s', w')"
        by (simp add: step s2_def split: if_splits)
      have p2: "cub_allocator s2 = Valid p"
        using U by (simp add: s2_def)
      have tbl2: "dev_info s2 = (dev_info s)[i := refreshed p w c i (dev_info s ! i)]"
        using U inside nonzero
        by (simp add: s2_def refreshed_def flush_count_refresh_entry)
      have IH: "length (dev_info s') = length (dev_info s2) \<and>
          (\<forall>j < length (dev_info s2). dev_info s' ! j =
            (if Suc i \<le> j then refreshed p w1 c j (dev_info s2 ! j) else dev_info s2 ! j)) \<and>
          mode s' = mode s2 \<and> debug s' = debug s2 \<and> cub_allocator s' = Valid p \<and>
          (\<exists>l. w' = w1\<lparr>log := l\<rparr>)"
      proof (cases "int i = c")
        case True
        with "1.IH"(1) [OF inside nonzero u refl True] r p2 show ?thesis
          by (simp add: s2_def)
      next
        case False
        with "1.IH"(2) [OF inside nonzero u refl False] r p2 show ?thesis
          by (simp add: s2_def)
      qed
      have same: "refreshed p w1 c j e = refreshed p w c j e" for j e
        unfolding w1 by (rule refreshed_log)
      have "\<forall>j < length (dev_info s). dev_info s' ! j =
            (if i \<le> j then refreshed p w c j (dev_info s ! j) else dev_info s ! j)"
      proof (intro allI impI)
        fix j assume j: "j < length (dev_info s)"
        show "dev_info s' ! j =
            (if i \<le> j then refreshed p w c j (dev_info s ! j) else dev_info s ! j)"
        proof (cases "j = i")
          case True
          with IH j tbl2 show ?thesis by simp
        next
          case False
          with IH j tbl2 same show ?thesis
            by (auto simp: Suc_le_eq)
        qed
      qed
      moreover have "mode s2 = mode s" "debug s2 = debug s"
        using U by (simp_all add: s2_def)
      moreover from IH obtain l where "w' = w1\<lparr>log := l\<rparr>"
        by blast
      then have "w' = w\<lparr>log := l\<rparr>"
        by (simp add: w1)
      then have "\<exists>l. w' = w\<lparr>log := l\<rparr>"
        by (rule exI)
      ultimately show ?thesis
        using IH tbl2 by simp
    qed
  qed
qed

subsection \<open>What GetInfo returns from the pool's table\<close>

lemma GetInfo_CUB_InrD:
  assumes "GetInfo s w = Inr (free_mem, total_mem)" and "mode s = CUB_ALLOCATOR"
  shows "rc_GetDevice w = cudaSuccess \<and> 0 \<le> current_device w \<and>
    nat (current_device w) < length (dev_info s) \<and>
    (\<exists>p. cub_allocator s = Valid p \<and>
      free_mem = free (dev_info s ! nat (current_device w)) - cached_live p (current_device w)) \<and>
    total_mem = total (dev_info s ! nat (current_device w))"
  using assms
  by (auto simp: GetInfo_def cudaGetDevice_def Let_def split: if_splits pool_ptr.splits)

lemma size_t_sub_wraps:
  fixes a b :: size_t
  assumes "a < b"
  shows "unat (a - b) + unat b = unat a + 2 ^ 64"
proof -
  have "unat b < 2 ^ 64"
    using unsigned_less [of b, where ?'a = nat] by simp
  with assms show ?thesis
    by (simp add: unat_sub_if' word_less_nat_alt)
qed

subsection \<open>The sample inputs, evaluated\<close>

lemma replicate_2: "replicate 2 x = [x, x]"
  by (simp add: numeral_2_eq_2)

lemma init_state1:
  "init [0] CUB_ALLOCATOR False (Some pool0) Manager world0 = Inr (state1, world0)"
  by (simp add: init_def Manager_def world0_def state1_def pool0_def update_dev_info_def
      cudaGetDevice_def cudaSetDevice_def cudaGetDeviceProperties_def cudaMemGetInfo_def
      VLOG_IF_def INT_MAX_def resize_def DevInfo0_def pool_name_def Let_def)

lemma reachable_state1: "reachable state1"
  using reach_init [OF reach_Manager init_state1] .

lemma update_state1: "update_dev_info state1 world1 0 = Inr (state2, world1)"
  by (simp add: world0_def world1_def state1_def state2_def pool0_def update_dev_info_def
      cudaGetDevice_def cudaSetDevice_def cudaGetDeviceProperties_def cudaMemGetInfo_def
      VLOG_IF_def INT_MAX_def resize_def DevInfo0_def Let_def)

lemma alloc_state1:
  "try_allocate extern_ok (Some 0) 600 0 state1 world0 = Inr (True, 4096, state3, world0)"
  by (simp add: try_allocate_def extern_ok_def state1_def state3_def world0_def
      cudaGetLastError_def Let_def)

lemma reachable_state3: "reachable state3"
  using reach_try_allocate [OF reachable_state1 alloc_state1] .

lemma GetInfo_state3: "GetInfo state3 world0 = Inr (18446744073709551416, 1000)"
  by (simp add: GetInfo_def state3_def state1_def world0_def cudaGetDevice_def pool_grow_def
      pool0_def)

lemma alloc_fail_state1:
  "try_allocate extern_fail (Some 0) 600 0 state1 world2 = Inr (False, 0, state5, world2)"
  by (simp add: try_allocate_def extern_fail_def state1_def state5_def world2_def world0_def
      pool0_def cudaGetLastError_def cudaGetDevice_def Let_def refresh_loop.simps
      update_dev_info_def cudaSetDevice_def cudaGetDeviceProperties_def cudaMemGetInfo_def
      VLOG_IF_def INT_MAX_def)

section \<open>The claims\<close>

subsection \<open>update_dev_info\<close>

text \<open>
  C1. After a call of \<^verbatim>\<open>update_dev_info\<close> that returns, the entry of its device has free at
  most total, whatever the driver, the hardware property query and the pool's counter
  report. The other entries are as before, so if every entry had the property, every
  entry has it; and every entry has it when the call is made in a state the manager can
  reach.
\<close>

theorem update_dev_info_free_le_total:
  assumes "update_dev_info s w device = Inr (s', w')"
  shows "free (dev_info s' ! nat device) \<le> total (dev_info s' ! nat device) \<and>
    ((\<forall>e \<in> set (dev_info s). free e \<le> total e) \<or> reachable s
       \<longrightarrow> (\<forall>e \<in> set (dev_info s'). free e \<le> total e))"
proof (intro conjI impI)
  from update_dev_info_InrD [OF assms] obtain p where
    "dev_info s' =
        (let tbl = (if length (dev_info s) < nat (device + 1)
                    then resize (dev_info s) (nat (device + 1)) else dev_info s)
         in tbl[nat device := refresh_entry p w device (tbl ! nat device)])"
    and "0 \<le> device"
    by blast
  then show "free (dev_info s' ! nat device) \<le> total (dev_info s' ! nat device)"
    by (auto simp: Let_def resize_def refresh_entry_ok)
next
  assume "(\<forall>e \<in> set (dev_info s). free e \<le> total e) \<or> reachable s"
  then have "table_ok (dev_info s)"
    using reachable_table_ok [of s] by (auto simp: table_ok_def)
  from update_dev_info_table_ok [OF assms this]
  show "\<forall>e \<in> set (dev_info s'). free e \<le> total e"
    by (simp add: table_ok_def)
qed

theorem update_dev_info_free_le_total_witness:
  "update_dev_info state1 world1 0 = Inr (state2, world1) \<and> reachable state1 \<and>
   length (dev_info state2) = 1 \<and>
   free (dev_info state2 ! 0) \<le> total (dev_info state2 ! 0)"
  using update_dev_info_free_le_total [OF update_state1] reachable_state1 update_state1
  by (simp add: state2_def)

text \<open>
  C3. A call of \<^verbatim>\<open>update_dev_info\<close> that returns stores, for its device, first the total as
  the minimum of the hardware capacity and the driver's total, then free as the minimum
  of that total and the driver's free plus the pool's live counter for the device. The
  sum is a \<^verbatim>\<open>size_t\<close> sum.
\<close>

theorem update_dev_info_stores_min:
  assumes "update_dev_info s w device = Inr (s', w')" and "cub_allocator s = Valid p"
  shows "nat device < length (dev_info s') \<and>
    total (dev_info s' ! nat device) = min (totalGlobalMem w device) (mem_total w device) \<and>
    free (dev_info s' ! nat device) =
      min (total (dev_info s' ! nat device)) (mem_free w device + cached_live p device)"
  using update_dev_info_InrD [OF assms(1)] assms(2)
  by (auto simp: Let_def refresh_entry_def resize_def)

theorem update_dev_info_stores_min_witness:
  "update_dev_info state1 world1 0 = Inr (state2, world1) \<and>
   cub_allocator state1 = Valid pool0 \<and>
   total (dev_info state2 ! 0) = min 1000 1024 \<and>
   free (dev_info state2 ! 0) = min (total (dev_info state2 ! 0)) (300 + 0)"
  using update_dev_info_stores_min [OF update_state1, of pool0] update_state1
  by (simp add: state1_def world1_def world0_def pool0_def)

text \<open>
  C7. A call of \<^verbatim>\<open>update_dev_info\<close> that returns leaves the active device as it found it.
\<close>

theorem update_dev_info_restores_device:
  assumes "update_dev_info s w device = Inr (s', w')"
  shows "current_device w' = current_device w"
proof -
  from update_dev_info_InrD [OF assms] have "w' = w\<lparr>log := log w'\<rparr>"
    by blast
  then have "current_device w' = current_device (w\<lparr>log := log w'\<rparr>)"
    by (rule arg_cong)
  then show ?thesis by simp
qed

theorem update_dev_info_restores_device_witness:
  "update_dev_info state1 world1 0 = Inr (state2, world1) \<and> current_device world1 = 3"
  using update_dev_info_restores_device [OF update_state1] update_state1
  by (simp add: world1_def)

subsection \<open>try_allocate\<close>

text \<open>
  C2, as the code has it. In caching-pool mode, when the pool's status is not success or
  an error is pending after the allocation, a call of \<^verbatim>\<open>try_allocate\<close> that returns has
  refreshed every entry whose total was not zero, has raised the flush counter of the
  active device's entry by one if that entry is one of those refreshed, has left every
  other entry and counter alone, and returns success exactly when the pool's status was
  success.
\<close>

theorem try_allocate_refreshes_on_anomaly:
  assumes "mode s = CUB_ALLOCATOR" and "cub_allocator s = Valid pl"
    and "DeviceAllocate X pl w p0 n st = (status, p1, pl1, w1)"
    and "status \<noteq> cudaSuccess \<or> last_error w1 \<noteq> cudaSuccess"
    and "try_allocate X (Some p0) n st s w = Inr (ok, p, s', w')"
  shows "ok = (status = cudaSuccess) \<and> length (dev_info s') = length (dev_info s) \<and>
    (\<forall>i < length (dev_info s).
       dev_info s' ! i = refreshed pl1 w1 (current_device w1) i (dev_info s ! i))"
proof -
  from try_allocate_CUB_InrD [OF assms(5) assms(1)] assms(2,3,4)
  have ok: "ok = (status = cudaSuccess)"
    and r: "refresh_loop 0 (current_device w1) (s\<lparr>cub_allocator := Valid pl1\<rparr>)
              (w1\<lparr>last_error := cudaSuccess\<rparr>) = Inr (s', w')"
    by auto
  have same: "refreshed pl1 (w1\<lparr>last_error := cudaSuccess\<rparr>) c i e = refreshed pl1 w1 c i e"
    for c i e
    by (simp add: refreshed_def refresh_entry_def)
  from refresh_loop_InrD [OF r, of pl1] ok same show ?thesis
    by simp
qed

theorem try_allocate_refreshes_on_anomaly_witness:
  "mode state1 = CUB_ALLOCATOR \<and> cub_allocator state1 = Valid pool0 \<and>
   DeviceAllocate extern_fail pool0 world2 0 600 0 =
     (cudaErrorMemoryAllocation, 0, pool0, world2\<lparr>last_error := cudaErrorMemoryAllocation\<rparr>) \<and>
   try_allocate extern_fail (Some 0) 600 0 state1 world2 = Inr (False, 0, state5, world2) \<and>
   length (dev_info state5) = length (dev_info state1) \<and>
   dev_info state5 ! 0 =
     refreshed pool0 (world2\<lparr>last_error := cudaErrorMemoryAllocation\<rparr>) 0 0 (dev_info state1 ! 0) \<and>
   dev_info state5 ! 0 = \<lparr>free = 300, total = 1000, flush_count = 1\<rparr>"
proof -
  have m: "mode state1 = CUB_ALLOCATOR" and c: "cub_allocator state1 = Valid pool0"
    by (simp_all add: state1_def)
  have d: "DeviceAllocate extern_fail pool0 world2 0 600 0 =
     (cudaErrorMemoryAllocation, 0, pool0, world2\<lparr>last_error := cudaErrorMemoryAllocation\<rparr>)"
    by (simp add: extern_fail_def)
  have a: "cudaErrorMemoryAllocation \<noteq> cudaSuccess \<or>
     last_error (world2\<lparr>last_error := cudaErrorMemoryAllocation\<rparr>) \<noteq> cudaSuccess"
    by simp
  from try_allocate_refreshes_on_anomaly [OF m c d a alloc_fail_state1] m c d alloc_fail_state1
  show ?thesis
    by (simp add: state1_def state5_def world2_def world0_def)
qed

text \<open>
  C2, as stated, fails: after \<^verbatim>\<open>init({1}, CUB_ALLOCATOR, false)\<close> the table holds an untouched
  entry for device 0. With device 0 active, a failed allocation refreshes device 1 and
  raises no flush counter, that of the active device included.
\<close>

theorem try_allocate_flush_count_counterexample:
  "init [1] CUB_ALLOCATOR False (Some pool0) Manager world0 = Inr (state_dev1, world0) \<and>
   mode state_dev1 = CUB_ALLOCATOR \<and> current_device world2 = 0 \<and>
   DeviceAllocate extern_fail pool0 world2 0 600 0 =
     (cudaErrorMemoryAllocation, 0, pool0, world2\<lparr>last_error := cudaErrorMemoryAllocation\<rparr>) \<and>
   try_allocate extern_fail (Some 0) 600 0 state_dev1 world2 =
     Inr (False, 0, state_dev1_refreshed, world2) \<and>
   flush_count (dev_info state_dev1 ! 0) = 0 \<and>
   flush_count (dev_info state_dev1_refreshed ! 0) = 0 \<and>
   flush_count (dev_info state_dev1_refreshed ! 1) = 0"
  by (simp add: init_def Manager_def pool_name_def resize_def DevInfo0_def
      try_allocate_def extern_fail_def state_dev1_def state_dev1_refreshed_def world2_def
      world0_def pool0_def cudaGetLastError_def cudaGetDevice_def Let_def refresh_loop.simps
      update_dev_info_def cudaSetDevice_def cudaGetDeviceProperties_def cudaMemGetInfo_def
      VLOG_IF_def INT_MAX_def replicate_2)

subsection \<open>GetInfo\<close>

text \<open>
  C4. In caching-pool mode a call of \<^verbatim>\<open>GetInfo\<close> that returns gives the stored total of the
  active device and its stored free minus the pool's live counter for that device, as a
  \<^verbatim>\<open>size_t\<close> difference. It asks the driver for the active device only: in any world with
  the same active device the result is the same, whatever the driver would report
  about memory.
\<close>

theorem GetInfo_caching_pool:
  assumes "mode s = CUB_ALLOCATOR" and "cub_allocator s = Valid p"
    and "GetInfo s w = Inr (free_mem, total_mem)"
    and "current_device w2 = current_device w" and "rc_GetDevice w2 = rc_GetDevice w"
  shows "total_mem = total (dev_info s ! nat (current_device w)) \<and>
    free_mem = free (dev_info s ! nat (current_device w)) - cached_live p (current_device w) \<and>
    GetInfo s w2 = Inr (free_mem, total_mem)"
proof -
  have same: "GetInfo s w2 = GetInfo s w"
    using assms(1,4,5) by (simp add: GetInfo_def cudaGetDevice_def)
  from GetInfo_CUB_InrD [OF assms(3) assms(1)] assms(2,3) same show ?thesis
    by auto
qed

theorem GetInfo_caching_pool_witness:
  "mode state1 = CUB_ALLOCATOR \<and> cub_allocator state1 = Valid pool0 \<and>
   GetInfo state1 world0 = Inr (400, 1000) \<and>
   current_device (world0\<lparr>mem_free := (\<lambda>d. 7), mem_total := (\<lambda>d. 9)\<rparr>) = current_device world0 \<and>
   GetInfo state1 (world0\<lparr>mem_free := (\<lambda>d. 7), mem_total := (\<lambda>d. 9)\<rparr>) = Inr (400, 1000)"
proof -
  have g: "GetInfo state1 world0 = Inr (400, 1000)"
    by (simp add: GetInfo_def state1_def world0_def cudaGetDevice_def pool0_def)
  have m: "mode state1 = CUB_ALLOCATOR" and c: "cub_allocator state1 = Valid pool0"
    by (simp_all add: state1_def)
  from GetInfo_caching_pool [OF m c g, of "world0\<lparr>mem_free := (\<lambda>d. 7), mem_total := (\<lambda>d. 9)\<rparr>"]
    g m c
  show ?thesis by simp
qed

text \<open>
  C9. The free value of \<^verbatim>\<open>GetInfo\<close> in caching-pool mode is an unguarded \<^verbatim>\<open>size_t\<close>
  difference: when the pool's live counter exceeds the stored free value, the result is
  the difference plus \<open>2 ^ 64\<close>; and there is a reachable state in which the counter
  exceeds the stored free value and the free value returned exceeds the total returned.
\<close>

theorem GetInfo_free_mem_wraps:
  "(mode s = CUB_ALLOCATOR \<and> cub_allocator s = Valid p \<and>
    GetInfo s w = Inr (free_mem, total_mem) \<and>
    free (dev_info s ! nat (current_device w)) < cached_live p (current_device w)
    \<longrightarrow> unat free_mem + unat (cached_live p (current_device w)) =
          unat (free (dev_info s ! nat (current_device w))) + 2 ^ 64) \<and>
   (\<exists>s0 w0 pl f0 t0. reachable s0 \<and> mode s0 = CUB_ALLOCATOR \<and>
      cub_allocator s0 = Valid pl \<and>
      free (dev_info s0 ! nat (current_device w0)) < cached_live pl (current_device w0) \<and>
      GetInfo s0 w0 = Inr (f0, t0) \<and> t0 < f0)"
proof (intro conjI impI)
  assume a: "mode s = CUB_ALLOCATOR \<and> cub_allocator s = Valid p \<and>
    GetInfo s w = Inr (free_mem, total_mem) \<and>
    free (dev_info s ! nat (current_device w)) < cached_live p (current_device w)"
  then have f: "free_mem =
      free (dev_info s ! nat (current_device w)) - cached_live p (current_device w)"
    using GetInfo_CUB_InrD [of s w free_mem total_mem] by auto
  from a have lt: "free (dev_info s ! nat (current_device w)) < cached_live p (current_device w)"
    by simp
  show "unat free_mem + unat (cached_live p (current_device w)) =
          unat (free (dev_info s ! nat (current_device w))) + 2 ^ 64"
    unfolding f using lt by (rule size_t_sub_wraps)
next
  have "reachable state3 \<and> mode state3 = CUB_ALLOCATOR \<and>
      cub_allocator state3 = Valid (pool_grow pool0 0 600) \<and>
      free (dev_info state3 ! nat (current_device world0))
        < cached_live (pool_grow pool0 0 600) (current_device world0) \<and>
      GetInfo state3 world0 = Inr (18446744073709551416, 1000) \<and>
      (1000 :: size_t) < 18446744073709551416"
    using reachable_state3 GetInfo_state3
    by (simp add: state3_def state1_def world0_def pool_grow_def pool0_def)
  then show "\<exists>s0 w0 pl f0 t0. reachable s0 \<and> mode s0 = CUB_ALLOCATOR \<and>
      cub_allocator s0 = Valid pl \<and>
      free (dev_info s0 ! nat (current_device w0)) < cached_live pl (current_device w0) \<and>
      GetInfo s0 w0 = Inr (f0, t0) \<and> t0 < f0"
    by blast
qed

theorem GetInfo_free_mem_wraps_witness:
  "mode state3 = CUB_ALLOCATOR \<and> cub_allocator state3 = Valid (pool_grow pool0 0 600) \<and>
   GetInfo state3 world0 = Inr (18446744073709551416, 1000) \<and>
   free (dev_info state3 ! nat (current_device world0))
     < cached_live (pool_grow pool0 0 600) (current_device world0) \<and>
   unat (18446744073709551416 :: size_t) + unat (600 :: size_t) = unat (400 :: size_t) + 2 ^ 64"
  using GetInfo_free_mem_wraps [of state3 "pool_grow pool0 0 600" world0
      18446744073709551416 1000] GetInfo_state3
  by (simp add: state3_def state1_def world0_def pool_grow_def pool0_def)

text \<open>
  C10. In caching-pool mode \<^verbatim>\<open>GetInfo\<close> indexes the table with the active device and checks
  no bound: once the active device is known, the access is out of bounds exactly when
  the active device is not an index of the table.
\<close>

theorem GetInfo_index_unchecked:
  assumes "mode s = CUB_ALLOCATOR" and "rc_GetDevice w = cudaSuccess"
  shows "(GetInfo s w = Inl IndexOutOfBounds) =
    (current_device w < 0 \<or> length (dev_info s) \<le> nat (current_device w))"
  using assms
  by (auto simp: GetInfo_def cudaGetDevice_def Let_def split: pool_ptr.splits)

theorem GetInfo_index_unchecked_witness:
  "mode state1 = CUB_ALLOCATOR \<and> rc_GetDevice (world0\<lparr>current_device := 1\<rparr>) = cudaSuccess \<and>
   length (dev_info state1) \<le> nat (current_device (world0\<lparr>current_device := 1\<rparr>)) \<and>
   GetInfo state1 (world0\<lparr>current_device := 1\<rparr>) = Inl IndexOutOfBounds"
  using GetInfo_index_unchecked [of state1 "world0\<lparr>current_device := 1\<rparr>"]
  by (simp add: state1_def world0_def)

subsection \<open>init and destroy\<close>

text \<open>
  C6. With an empty device list \<^verbatim>\<open>init\<close> returns, the mode is \<^verbatim>\<open>CUDA_MALLOC\<close> whatever mode was
  asked for, and no pool is constructed: the pool pointer and the table are as before,
  and the outcome of a construction plays no part.
\<close>

theorem init_empty_devices:
  "\<exists>s' w'. init [] m d ctor s w = Inr (s', w') \<and> mode s' = CUDA_MALLOC \<and>
     cub_allocator s' = cub_allocator s \<and> dev_info s' = dev_info s \<and>
     init [] m d ctor2 s w = Inr (s', w')"
  by (simp add: init_def Let_def)

text \<open>
  C5. \<^verbatim>\<open>destroy\<close> returns whenever the pool pointer is not dangling, in particular when
  there is no pool. After it the mode is \<^verbatim>\<open>CUDA_MALLOC\<close> and a second \<^verbatim>\<open>destroy\<close> changes
  nothing. \<^verbatim>\<open>GetInfo\<close> and \<^verbatim>\<open>try_allocate\<close> then do what they do on any manager in mode
  \<^verbatim>\<open>CUDA_MALLOC\<close>, whatever the pool's allocation call would do, and \<^verbatim>\<open>try_allocate\<close> leaves
  the manager as it is.
\<close>

theorem destroy_resets_to_direct:
  "(cub_allocator s \<noteq> Dangling \<longrightarrow> (\<exists>s1. destroy s = Inr s1)) \<and>
   (destroy s = Inr s' \<and> mode s0 = CUDA_MALLOC \<and> cudaMalloc X0 = cudaMalloc X \<longrightarrow>
      mode s' = CUDA_MALLOC \<and> destroy s' = Inr s' \<and>
      GetInfo s' w = GetInfo s0 w \<and>
      try_allocate X ptr n st s' w =
        (case try_allocate X0 ptr n st s0 w of
           Inl e \<Rightarrow> Inl e
         | Inr (ok, p, s2, w2) \<Rightarrow> Inr (ok, p, s', w2)))"
proof (intro conjI impI)
  assume "cub_allocator s \<noteq> Dangling"
  then show "\<exists>s1. destroy s = Inr s1"
    by (cases "mode s"; cases "cub_allocator s") (simp_all add: destroy_def)
next
  assume a: "destroy s = Inr s' \<and> mode s0 = CUDA_MALLOC \<and> cudaMalloc X0 = cudaMalloc X"
  then have m: "mode s' = CUDA_MALLOC"
    by (auto simp: destroy_def split: Mode.splits pool_ptr.splits)
  then show "mode s' = CUDA_MALLOC" .
  from m show "destroy s' = Inr s'"
    by (simp add: destroy_def)
  from m a show "GetInfo s' w = GetInfo s0 w"
    by (simp add: GetInfo_def)
  from m a show "try_allocate X ptr n st s' w =
        (case try_allocate X0 ptr n st s0 w of
           Inl e \<Rightarrow> Inl e
         | Inr (ok, p, s2, w2) \<Rightarrow> Inr (ok, p, s', w2))"
    by (cases ptr) (simp_all add: try_allocate_def split: prod.splits)
qed

theorem destroy_resets_to_direct_witness:
  "cub_allocator state1 \<noteq> Dangling \<and> destroy state1 = Inr state4 \<and>
   mode Manager = CUDA_MALLOC \<and>
   cudaMalloc (extern_ok\<lparr>DeviceAllocate := DeviceAllocate extern_fail\<rparr>) = cudaMalloc extern_ok \<and>
   mode state4 = CUDA_MALLOC \<and> destroy state4 = Inr state4 \<and>
   GetInfo state4 world0 = Inr (400, 1024) \<and> GetInfo Manager world0 = Inr (400, 1024) \<and>
   try_allocate extern_ok (Some 0) 600 0 state4 world0 = Inr (True, 4096, state4, world0) \<and>
   try_allocate (extern_ok\<lparr>DeviceAllocate := DeviceAllocate extern_fail\<rparr>) (Some 0) 600 0
     Manager world0 = Inr (True, 4096, Manager, world0)"
  using destroy_resets_to_direct [of state1 state4 Manager
      "extern_ok\<lparr>DeviceAllocate := DeviceAllocate extern_fail\<rparr>" extern_ok world0 "Some 0" 600 0]
  by (simp add: state1_def state4_def destroy_def Manager_def GetInfo_def cudaMemGetInfo_def
      world0_def try_allocate_def extern_ok_def)

text \<open>
  C8. The line naming the pool strategy is written on the argument \<^verbatim>\<open>debug\<close>, not on the
  resolved flag. With \<^verbatim>\<open>DEBUG_GPU_MEM\<close> set, verbose logging on and \<^verbatim>\<open>debug = false\<close>, the
  resolved flag is true and \<^verbatim>\<open>update_dev_info\<close> writes its two lines, but \<^verbatim>\<open>init\<close> does not
  write its own; with \<^verbatim>\<open>debug = true\<close> it does.
\<close>

theorem init_environment_override_not_logged:
  "init [0] CUB_ALLOCATOR False (Some pool0) Manager world_env =
     Inr (state1_debug,
          world_env\<lparr>log := [LogDeviceProperties 1000, LogMemGetInfo 0 400 1024]\<rparr>) \<and>
   debug state1_debug \<and> env_DEBUG_GPU_MEM world_env \<and> 1 \<le> verbosity world_env \<and>
   LogInitialized (pool_name state1_debug)
     \<notin> set [LogDeviceProperties 1000, LogMemGetInfo 0 400 1024] \<and>
   init [0] CUB_ALLOCATOR True (Some pool0) Manager world_env =
     Inr (state1_debug,
          world_env\<lparr>log := [LogDeviceProperties 1000, LogMemGetInfo 0 400 1024,
                              LogInitialized (pool_name state1_debug)]\<rparr>)"
  by (simp add: init_def Manager_def world_env_def world0_def state1_debug_def state1_def
      pool0_def update_dev_info_def
      cudaGetDevice_def cudaSetDevice_def cudaGetDeviceProperties_def cudaMemGetInfo_def
      VLOG_IF_def INT_MAX_def resize_def DevInfo0_def pool_name_def Let_def)

end
